theory Spec2Isabelle
  imports Complex_Main "HOL-Library.AList"
begin

section \<open>JSON values and the Python operations the script applies to them\<close>

text \<open>
  The script \<^verbatim>\<open>get_comet_data.py\<close> works on the document decoded by
  \<^verbatim>\<open>response.json()\<close>: a Python dict whose entries are arbitrary JSON values.
  The values are modelled by one datatype; a dict is an association list in insertion order
  (keys of a decoded JSON object are strings and distinct). Strings are lists of 8-bit
  characters. The type parameter \<open>'f\<close> is the type of Python floats (IEEE binary64 in
  CPython): their arithmetic and their text forms are taken as operations of a record, so
  every theorem below holds for any implementation of them.
\<close>

datatype 'f jval =
    JNull
  | JBool bool
  | JInt int
  | JFloat 'f
  | JStr string
  | JList "'f jval list"
  | JObj "(string \<times> 'f jval) list"

type_synonym 'f payload = "(string \<times> 'f jval) list"

text \<open>The exceptions that the modelled code can meet.\<close>

datatype pyexc = TypeError | ValueError | IndexError | KeyError | OverflowError | OSError | CsvError

record 'f py_ops =
  float_of_str :: "string \<Rightarrow> 'f option"   \<comment> \<open>\<^verbatim>\<open>float(s)\<close> of a str; \<open>None\<close> is ValueError\<close>
  float_of_int :: "int \<Rightarrow> 'f"             \<comment> \<open>\<^verbatim>\<open>float(n)\<close> of an int in range\<close>
  float_lit :: "string \<Rightarrow> 'f"              \<comment> \<open>value of a float literal of the source text\<close>
  fdiv :: "'f \<Rightarrow> 'f \<Rightarrow> 'f"                  \<comment> \<open>\<^verbatim>\<open>x / y\<close>, y a non-zero literal\<close>
  fsub :: "'f \<Rightarrow> 'f \<Rightarrow> 'f"                  \<comment> \<open>\<^verbatim>\<open>x - y\<close>\<close>
  fgt_int :: "'f \<Rightarrow> int \<Rightarrow> bool"            \<comment> \<open>\<^verbatim>\<open>x > n\<close>, a float against an int\<close>
  fis_zero :: "'f \<Rightarrow> bool"                 \<comment> \<open>\<^verbatim>\<open>x == 0.0\<close>, for truth tests\<close>
  float_repr :: "'f \<Rightarrow> string"             \<comment> \<open>\<^verbatim>\<open>repr(x)\<close>, which is also \<^verbatim>\<open>str(x)\<close>\<close>
  json_float :: "'f \<Rightarrow> string"             \<comment> \<open>the text \<^verbatim>\<open>json.dump\<close> writes for a float\<close>
  container_repr :: "'f jval \<Rightarrow> string"    \<comment> \<open>\<^verbatim>\<open>str(v)\<close> of a list or a dict\<close>

text \<open>
  Sequencing of computations that may raise: the first exception ends the computation.
  \<open>emap\<close> is a \<^verbatim>\<open>for\<close> loop that appends one result per element.
\<close>

definition ebind :: "'e + 'a \<Rightarrow> ('a \<Rightarrow> 'e + 'b) \<Rightarrow> 'e + 'b" where
  "ebind m f = (case m of Inl e \<Rightarrow> Inl e | Inr x \<Rightarrow> f x)"

fun emap :: "('a \<Rightarrow> 'e + 'b) \<Rightarrow> 'a list \<Rightarrow> 'e + 'b list" where
  "emap f [] = Inr []"
| "emap f (x # xs) = ebind (f x) (\<lambda>y. ebind (emap f xs) (\<lambda>ys. Inr (y # ys)))"

text \<open>
  \<^verbatim>\<open>float(value)\<close>. An int converts when it rounds to a finite binary64 and raises
  OverflowError otherwise; the largest finite binary64 is \<open>2^1024 - 2^971\<close> and the
  conversion rounds to nearest, ties to even, so the ints that convert are those of
  absolute value below \<open>2^1024 - 2^970\<close>. A str converts or raises ValueError (a long
  digit string gives \<^verbatim>\<open>inf\<close>, not an exception); a bool is an int; None, a list
  and a dict raise TypeError.
\<close>

definition int_fits_float :: "int \<Rightarrow> bool" where
  "int_fits_float n \<longleftrightarrow> \<bar>n\<bar> < 2 ^ 1024 - 2 ^ 970"

fun py_float :: "'f py_ops \<Rightarrow> 'f jval \<Rightarrow> pyexc + 'f" where
  "py_float ops JNull = Inl TypeError"
| "py_float ops (JBool b) = Inr (float_of_int ops (if b then 1 else 0))"
| "py_float ops (JInt n) =
     (if int_fits_float n then Inr (float_of_int ops n) else Inl OverflowError)"
| "py_float ops (JFloat x) = Inr x"
| "py_float ops (JStr s) =
     (case float_of_str ops s of None \<Rightarrow> Inl ValueError | Some x \<Rightarrow> Inr x)"
| "py_float ops (JList xs) = Inl TypeError"
| "py_float ops (JObj kvs) = Inl TypeError"

text \<open>
  Iteration (\<^verbatim>\<open>for x in v\<close>, \<^verbatim>\<open>enumerate(v)\<close>): a list gives its elements, a str
  its characters, a dict its keys; anything else raises TypeError.
\<close>

fun py_iter :: "'f jval \<Rightarrow> pyexc + 'f jval list" where
  "py_iter (JList xs) = Inr xs"
| "py_iter (JStr s) = Inr (map (\<lambda>c. JStr [c]) s)"
| "py_iter (JObj kvs) = Inr (map (\<lambda>kv. JStr (fst kv)) kvs)"
| "py_iter JNull = Inl TypeError"
| "py_iter (JBool b) = Inl TypeError"
| "py_iter (JInt n) = Inl TypeError"
| "py_iter (JFloat x) = Inl TypeError"

text \<open>
  Subscription \<^verbatim>\<open>row[i]\<close> with a non-negative int: IndexError out of range on a
  list or a str, KeyError on a dict (its keys are strings), TypeError otherwise.
\<close>

fun py_getitem :: "'f jval \<Rightarrow> nat \<Rightarrow> pyexc + 'f jval" where
  "py_getitem (JList xs) i = (if i < length xs then Inr (xs ! i) else Inl IndexError)"
| "py_getitem (JStr s) i = (if i < length s then Inr (JStr [s ! i]) else Inl IndexError)"
| "py_getitem (JObj kvs) i = Inl KeyError"
| "py_getitem JNull i = Inl TypeError"
| "py_getitem (JBool b) i = Inl TypeError"
| "py_getitem (JInt n) i = Inl TypeError"
| "py_getitem (JFloat x) i = Inl TypeError"

text \<open>Truth value of an object, as \<^verbatim>\<open>not v\<close> tests it.\<close>

fun truthy :: "'f py_ops \<Rightarrow> 'f jval \<Rightarrow> bool" where
  "truthy ops JNull = False"
| "truthy ops (JBool b) = b"
| "truthy ops (JInt n) = (n \<noteq> 0)"
| "truthy ops (JFloat x) = (\<not> fis_zero ops x)"
| "truthy ops (JStr s) = (s \<noteq> [])"
| "truthy ops (JList xs) = (xs \<noteq> [])"
| "truthy ops (JObj kvs) = (kvs \<noteq> [])"

section \<open>The transformer: \<^verbatim>\<open>convert_to_kstars_format\<close>\<close>

definition kstars_fields :: "string list" where
  "kstars_fields =
     [''full_name'', ''epoch.mjd'', ''q'', ''e'', ''i'', ''w'', ''om'', ''tp'', ''orbit_id'',
      ''neo'', ''M1'', ''M2'', ''diameter'', ''extent'', ''albedo'', ''rot_per'', ''per.y'',
      ''moid'', ''H'', ''G'', ''class'']"

text \<open>
  The \<^verbatim>\<open>if/elif\<close> chain of the mapping loop: the key of \<^verbatim>\<open>field_map\<close> that a
  source field sets, if any. A source field that is not a str equals none of the names.
\<close>

fun target_field :: "'f jval \<Rightarrow> string option" where
  "target_field (JStr s) =
     (if s = ''full_name'' then Some ''full_name''
      else if s = ''epoch'' then Some ''epoch.mjd''
      else if s = ''q'' then Some ''q''
      else if s = ''e'' then Some ''e''
      else if s = ''i'' then Some ''i''
      else if s = ''w'' then Some ''w''
      else if s = ''om'' then Some ''om''
      else if s = ''tp'' then Some ''tp''
      else if s = ''moid'' then Some ''moid''
      else if s = ''H'' then Some ''H''
      else if s = ''class'' then Some ''class''
      else if s = ''per'' then Some ''per.y''
      else None)"
| "target_field JNull = None"
| "target_field (JBool b) = None"
| "target_field (JInt n) = None"
| "target_field (JFloat x) = None"
| "target_field (JList xs) = None"
| "target_field (JObj kvs) = None"

text \<open>The loop \<^verbatim>\<open>for i, field in enumerate(jpl_fields)\<close>: a later column of the same
  name overwrites the entry of an earlier one.\<close>

fun field_map_loop :: "(nat \<times> 'f jval) list \<Rightarrow> (string \<rightharpoonup> nat) \<Rightarrow> (string \<rightharpoonup> nat)" where
  "field_map_loop [] m = m"
| "field_map_loop ((i, field) # rest) m =
     field_map_loop rest (case target_field field of Some t \<Rightarrow> m(t \<mapsto> i) | None \<Rightarrow> m)"

definition build_field_map :: "'f jval list \<Rightarrow> (string \<rightharpoonup> nat)" where
  "build_field_map jpl_fields = field_map_loop (enumerate 0 jpl_fields) Map.empty"

text \<open>
  The special conversions of one looked-up value. Each \<^verbatim>\<open>try\<close> catches ValueError and
  TypeError only; any other exception of \<^verbatim>\<open>float(value)\<close> leaves the function.
\<close>

definition convert_value :: "'f py_ops \<Rightarrow> string \<Rightarrow> 'f jval \<Rightarrow> pyexc + 'f jval" where
  "convert_value ops field v =
     (if field = ''per.y'' \<and> v \<noteq> JNull then
        (case py_float ops v of
           Inr x \<Rightarrow> Inr (JFloat (fdiv ops x (float_lit ops ''365.25'')))
         | Inl e \<Rightarrow> if e = ValueError \<or> e = TypeError then Inr JNull else Inl e)
      else if field = ''epoch.mjd'' \<and> v \<noteq> JNull then
        (case py_float ops v of
           Inr epoch_val \<Rightarrow>
             if fgt_int ops epoch_val 2400000
             then Inr (JFloat (fsub ops epoch_val (float_lit ops ''2400000.5'')))
             else Inr (JFloat epoch_val)
         | Inl e \<Rightarrow> if e = ValueError \<or> e = TypeError then Inr JNull else Inl e)
      else Inr v)"

text \<open>One pass of the inner loop: the value appended to \<^verbatim>\<open>kstars_row\<close> for a target field.\<close>

definition convert_cell ::
  "'f py_ops \<Rightarrow> (string \<rightharpoonup> nat) \<Rightarrow> 'f jval \<Rightarrow> string \<Rightarrow> pyexc + 'f jval" where
  "convert_cell ops field_map row field =
     (case field_map field of
        Some i \<Rightarrow> ebind (py_getitem row i) (convert_value ops field)
      | None \<Rightarrow> Inr JNull)"

definition convert_row :: "'f py_ops \<Rightarrow> (string \<rightharpoonup> nat) \<Rightarrow> 'f jval \<Rightarrow> pyexc + 'f jval" where
  "convert_row ops field_map row =
     ebind (emap (convert_cell ops field_map row) kstars_fields) (\<lambda>kstars_row. Inr (JList kstars_row))"

definition kstars_signature :: string where
  "kstars_signature = ''KStars comet data converted from JPL SBDB API''"

text \<open>
  The whole function: \<open>Inr None\<close> is the return of \<^verbatim>\<open>None\<close>, \<open>Inr (Some d)\<close> the
  returned dict, \<open>Inl e\<close> an exception that leaves the function.
\<close>

definition convert_to_kstars_format :: "'f py_ops \<Rightarrow> 'f payload \<Rightarrow> pyexc + 'f payload option" where
  "convert_to_kstars_format ops data =
     (case (map_of data ''data'', map_of data ''fields'') of
        (Some rows_v, Some fields_v) \<Rightarrow>
          ebind (py_iter fields_v) (\<lambda>jpl_fields.
          ebind (py_iter rows_v) (\<lambda>rows.
          ebind (emap (convert_row ops (build_field_map jpl_fields)) rows) (\<lambda>kstars_data.
            Inr (Some [(''signature'', JStr kstars_signature),
                       (''fields'', JList (map JStr kstars_fields)),
                       (''data'', JList kstars_data),
                       (''count'', JInt (int (length kstars_data)))]))))
      | _ \<Rightarrow> Inr None)"

section \<open>Text forms\<close>

text \<open>Decimal text of an int, as \<^verbatim>\<open>str(n)\<close> and \<^verbatim>\<open>json.dump\<close> write it.\<close>

fun dec_nat :: "nat \<Rightarrow> string" where
  "dec_nat n =
     (if n < 10 then [''0123456789'' ! n]
      else dec_nat (n div 10) @ [''0123456789'' ! (n mod 10)])"

declare dec_nat.simps [simp del]

definition dec_int :: "int \<Rightarrow> string" where
  "dec_int n = (if n < 0 then CHR ''-'' # dec_nat (nat (- n)) else dec_nat (nat n))"

subsection \<open>\<^verbatim>\<open>csv.writer\<close> with the default dialect\<close>

text \<open>
  The default dialect: delimiter comma, quote character the double quote, doubled when it
  occurs in a field, minimal quoting, line terminator CR LF. None is written as the empty
  field, a str as it is, any other object as its \<^verbatim>\<open>str()\<close>. A field is quoted when it
  holds the delimiter, the quote character, CR or LF; a record of one empty field is
  written as a pair of quotes.
\<close>

definition csv_field_text :: "'f py_ops \<Rightarrow> 'f jval \<Rightarrow> string" where
  "csv_field_text ops v =
     (case v of
        JNull \<Rightarrow> []
      | JBool b \<Rightarrow> (if b then ''True'' else ''False'')
      | JInt n \<Rightarrow> dec_int n
      | JFloat x \<Rightarrow> float_repr ops x
      | JStr s \<Rightarrow> s
      | JList xs \<Rightarrow> container_repr ops v
      | JObj kvs \<Rightarrow> container_repr ops v)"

definition csv_special :: "char \<Rightarrow> bool" where
  "csv_special c \<longleftrightarrow> c = CHR '','' \<or> c = CHR 0x22 \<or> c = CHR 0x0D \<or> c = CHR 0x0A"

definition csv_quote :: "string \<Rightarrow> string" where
  "csv_quote s =
     CHR 0x22 # concat (map (\<lambda>c. if c = CHR 0x22 then [c, c] else [c]) s) @ [CHR 0x22]"

definition csv_field :: "string \<Rightarrow> string" where
  "csv_field s = (if list_ex csv_special s then csv_quote s else s)"

fun csv_join :: "string list \<Rightarrow> string" where
  "csv_join [] = []"
| "csv_join [x] = x"
| "csv_join (x # y # rest) = x @ CHR '','' # csv_join (y # rest)"

definition csv_record :: "'f py_ops \<Rightarrow> 'f jval list \<Rightarrow> string" where
  "csv_record ops cells =
     (let texts = map (csv_field_text ops) cells in
      (if texts = [[]] then [CHR 0x22, CHR 0x22] else csv_join (map csv_field texts))
      @ [CHR 0x0D, CHR 0x0A])"

text \<open>\<^verbatim>\<open>writer.writerow(row)\<close>: the text written, or \<^verbatim>\<open>csv.Error\<close> when the row is
  not iterable.\<close>

definition writerow :: "'f py_ops \<Rightarrow> 'f jval \<Rightarrow> pyexc + string" where
  "writerow ops row =
     (case py_iter row of Inl e \<Rightarrow> Inl CsvError | Inr cells \<Rightarrow> Inr (csv_record ops cells))"

subsection \<open>\<^verbatim>\<open>json.dump\<close>\<close>

text \<open>
  The encoder yields chunks of text that \<^verbatim>\<open>json.dump\<close> writes one after the other.
  A chunk is either layout that the encoder adds (brackets, separators, line breaks and
  indentation) or the text of a literal (a key, a string, a number, true, false, null).
  Strings are escaped with \<^verbatim>\<open>ensure_ascii\<close>, the default.
\<close>

record json_cfg =
  indent :: "nat option"
  item_separator :: string
  key_separator :: string

datatype chunk = Punct string | Lit string

fun chunk_text :: "chunk \<Rightarrow> string" where
  "chunk_text (Punct s) = s"
| "chunk_text (Lit s) = s"

definition json_text :: "chunk list \<Rightarrow> string" where
  "json_text cs = concat (map chunk_text cs)"

definition hex_digit :: "nat \<Rightarrow> char" where
  "hex_digit n = ''0123456789abcdef'' ! n"

definition json_escape :: "char \<Rightarrow> string" where
  "json_escape c =
     (if c = CHR 0x22 then [CHR 0x5C, CHR 0x22]
      else if c = CHR 0x5C then [CHR 0x5C, CHR 0x5C]
      else if c = CHR 0x0A then [CHR 0x5C, CHR ''n'']
      else if c = CHR 0x0D then [CHR 0x5C, CHR ''r'']
      else if c = CHR 0x09 then [CHR 0x5C, CHR ''t'']
      else if c = CHR 0x08 then [CHR 0x5C, CHR ''b'']
      else if c = CHR 0x0C then [CHR 0x5C, CHR ''f'']
      else if (of_char c :: nat) < 32 \<or> 126 < (of_char c :: nat)
        then [CHR 0x5C, CHR ''u'', CHR ''0'', CHR ''0'',
              hex_digit (of_char c div 16), hex_digit (of_char c mod 16)]
      else [c])"

definition json_string :: "string \<Rightarrow> string" where
  "json_string s = CHR 0x22 # concat (map json_escape s) @ [CHR 0x22]"

definition newline_indent :: "json_cfg \<Rightarrow> nat \<Rightarrow> string" where
  "newline_indent cfg lvl =
     (case indent cfg of None \<Rightarrow> [] | Some k \<Rightarrow> CHR 0x0A # replicate (k * lvl) CHR '' '')"

definition closing_indent :: "json_cfg \<Rightarrow> nat \<Rightarrow> chunk list" where
  "closing_indent cfg lvl =
     (case indent cfg of None \<Rightarrow> [] | Some k \<Rightarrow> [Punct (CHR 0x0A # replicate (k * lvl) CHR '' '')])"

fun sep_chunks :: "chunk \<Rightarrow> chunk list list \<Rightarrow> chunk list" where
  "sep_chunks sep [] = []"
| "sep_chunks sep [x] = x"
| "sep_chunks sep (x # y # rest) = x @ sep # sep_chunks sep (y # rest)"

fun json_encode :: "'f py_ops \<Rightarrow> json_cfg \<Rightarrow> nat \<Rightarrow> 'f jval \<Rightarrow> chunk list" where
  "json_encode ops cfg lvl JNull = [Lit ''null'']"
| "json_encode ops cfg lvl (JBool b) = [Lit (if b then ''true'' else ''false'')]"
| "json_encode ops cfg lvl (JInt n) = [Lit (dec_int n)]"
| "json_encode ops cfg lvl (JFloat x) = [Lit (json_float ops x)]"
| "json_encode ops cfg lvl (JStr s) = [Lit (json_string s)]"
| "json_encode ops cfg lvl (JList xs) =
     (if xs = [] then [Punct ''[]'']
      else Punct (CHR ''['' # newline_indent cfg (Suc lvl))
           # sep_chunks (Punct (item_separator cfg @ newline_indent cfg (Suc lvl)))
               (map (json_encode ops cfg (Suc lvl)) xs)
           @ closing_indent cfg lvl @ [Punct '']''])"
| "json_encode ops cfg lvl (JObj kvs) =
     (if kvs = [] then [Punct ''{}'']
      else Punct (CHR ''{'' # newline_indent cfg (Suc lvl))
           # sep_chunks (Punct (item_separator cfg @ newline_indent cfg (Suc lvl)))
               (map (\<lambda>(k, v). Lit (json_string k) # Punct (key_separator cfg)
                                # json_encode ops cfg (Suc lvl) v) kvs)
           @ closing_indent cfg lvl @ [Punct ''}''])"

text \<open>The two configurations the script uses: \<^verbatim>\<open>indent=2\<close> (whose default separators
  are a comma and a colon with a space), and \<^verbatim>\<open>separators=(',', ':')\<close>.\<close>

definition pretty_cfg :: json_cfg where
  "pretty_cfg = \<lparr>indent = Some 2, item_separator = '','', key_separator = '': ''\<rparr>"

definition compact_cfg :: json_cfg where
  "compact_cfg = \<lparr>indent = None, item_separator = '','', key_separator = '':''\<rparr>"

section \<open>The writers\<close>

text \<open>
  The file system is a map from paths to contents, with an oracle for the paths that
  \<^verbatim>\<open>open(filename, 'w')\<close> can open; opening creates the file or truncates it, and a
  write appends. A write to an open file is taken to succeed. A writer returns its
  bool and the file system it leaves; messages printed on the console are not modelled.
\<close>

record world =
  files :: "string \<rightharpoonup> string"
  openable :: "string \<Rightarrow> bool"

definition open_w :: "string \<Rightarrow> world \<Rightarrow> pyexc + world" where
  "open_w filename w =
     (if openable w filename then Inr (w\<lparr>files := (files w)(filename \<mapsto> [])\<rparr>) else Inl OSError)"

definition write_text :: "string \<Rightarrow> string \<Rightarrow> world \<Rightarrow> world" where
  "write_text filename s w =
     w\<lparr>files := (files w)(filename \<mapsto>
          (case files w filename of None \<Rightarrow> s | Some old \<Rightarrow> old @ s))\<rparr>"

text \<open>\<^verbatim>\<open>writer.writerows(rows)\<close>: the rows before the first bad one stay written.\<close>

fun writerows :: "'f py_ops \<Rightarrow> string \<Rightarrow> 'f jval list \<Rightarrow> world \<Rightarrow> (pyexc + unit) \<times> world" where
  "writerows ops filename [] w = (Inr (), w)"
| "writerows ops filename (row # rest) w =
     (case writerow ops row of
        Inl e \<Rightarrow> (Inl e, w)
      | Inr line \<Rightarrow> writerows ops filename rest (write_text filename line w))"

definition save_as_csv :: "'f py_ops \<Rightarrow> 'f payload \<Rightarrow> string \<Rightarrow> world \<Rightarrow> bool \<times> world" where
  "save_as_csv ops data filename w =
     (case (map_of data ''data'', map_of data ''fields'') of
        (Some rows_v, Some fieldnames) \<Rightarrow>
          (case open_w filename w of
             Inl e \<Rightarrow> (False, w)
           | Inr w1 \<Rightarrow>
               if \<not> truthy ops rows_v then (False, w1)
               else (case writerow ops fieldnames of
                       Inl e \<Rightarrow> (False, w1)
                     | Inr header \<Rightarrow>
                         (case py_iter rows_v of
                            Inl e \<Rightarrow> (False, write_text filename header w1)
                          | Inr rows \<Rightarrow>
                              (case writerows ops filename rows (write_text filename header w1) of
                                 (Inl e, w2) \<Rightarrow> (False, w2)
                               | (Inr u, w2) \<Rightarrow> (True, w2)))))
      | _ \<Rightarrow> (False, w))"

definition save_as_json :: "'f py_ops \<Rightarrow> 'f payload \<Rightarrow> string \<Rightarrow> world \<Rightarrow> bool \<times> world" where
  "save_as_json ops data filename w =
     (if data = [] then (False, w)
      else (case open_w filename w of
              Inl e \<Rightarrow> (False, w)
            | Inr w1 \<Rightarrow>
                (True, write_text filename
                         (json_text (json_encode ops pretty_cfg 0 (JObj data))) w1)))"

definition save_as_kstars :: "'f py_ops \<Rightarrow> 'f payload \<Rightarrow> string \<Rightarrow> world \<Rightarrow> bool \<times> world" where
  "save_as_kstars ops data filename w =
     (if data = [] then (False, w)
      else (case convert_to_kstars_format ops data of
              Inl e \<Rightarrow> (False, w)
            | Inr None \<Rightarrow> (False, w)
            | Inr (Some kstars_data) \<Rightarrow>
                if kstars_data = [] then (False, w)
                else (case open_w filename w of
                        Inl e \<Rightarrow> (False, w)
                      | Inr w1 \<Rightarrow>
                          (True, write_text filename
                                   (json_text (json_encode ops compact_cfg 0 (JObj kstars_data)))
                                   w1))))"

section \<open>The driver\<close>



datatype out_format = Csv | Json | KStars




section \<open>Auxiliary notions for stating the properties\<close>








subsection \<open>An instance of the float operations, for evaluating on concrete inputs\<close>

text \<open>
  Exact rational arithmetic stands in for binary64. \<^verbatim>\<open>float(s)\<close> accepts the unsigned
  decimal numerals only (digits, then optionally a point and digits); the text forms of
  floats and containers are placeholders.
\<close>

fun digits_value :: "string \<Rightarrow> nat \<Rightarrow> nat option" where
  "digits_value [] acc = Some acc"
| "digits_value (c # cs) acc =
     (if 48 \<le> (of_char c :: nat) \<and> (of_char c :: nat) \<le> 57
      then digits_value cs (10 * acc + (of_char c - 48)) else None)"

definition decimal_value :: "string \<Rightarrow> rat option" where
  "decimal_value s =
     (let ip = takeWhile (\<lambda>c. c \<noteq> CHR ''.'') s; rest = dropWhile (\<lambda>c. c \<noteq> CHR ''.'') s in
      if ip = [] then None
      else (case digits_value ip 0 of
              None \<Rightarrow> None
            | Some n \<Rightarrow>
                if rest = [] then Some (of_nat n)
                else (case digits_value (tl rest) 0 of
                        None \<Rightarrow> None
                      | Some m \<Rightarrow> Some (of_nat n + of_nat m / 10 ^ length (tl rest)))))"

definition rat_ops :: "rat py_ops" where
  "rat_ops =
     \<lparr>float_of_str = decimal_value,
      float_of_int = of_int,
      float_lit = (\<lambda>s. if s = ''365.25'' then 1461 / 4
                         else if s = ''2400000.5'' then 4800001 / 2 else 0),
      fdiv = (\<lambda>x y. x / y),
      fsub = (\<lambda>x y. x - y),
      fgt_int = (\<lambda>x n. of_int n < x),
      fis_zero = (\<lambda>x. x = 0),
      float_repr = (\<lambda>x. ''<float>''),
      json_float = (\<lambda>x. ''<float>''),
      container_repr = (\<lambda>v. ''<container>'')\<rparr>"

subsection \<open>Concrete payloads and file systems\<close>


text \<open>A table whose only row has no entry for its only column.\<close>

definition short_row_payload :: "rat payload" where
  "short_row_payload = [(''fields'', JList [JStr ''q'']), (''data'', JList [JList []])]"


text \<open>Tables whose epoch, or period, is the JSON integer \<open>10^400\<close>, which
  \<^verbatim>\<open>json.loads\<close> decodes to a Python int.\<close>

definition epoch_overflow_payload :: "'f payload" where
  "epoch_overflow_payload =
     [(''fields'', JList [JStr ''epoch'']), (''data'', JList [JList [JInt (10 ^ 400)]])]"

definition per_overflow_payload :: "'f payload" where
  "per_overflow_payload =
     [(''fields'', JList [JStr ''per'']), (''data'', JList [JList [JInt (10 ^ 400)]])]"



definition empty_table_payload :: "rat payload" where
  "empty_table_payload = [(''fields'', JList [JStr ''full_name'']), (''data'', JList [])]"

definition error_payload :: "rat payload" where
  "error_payload = [(''code'', JStr ''400''), (''message'', JStr ''bad request'')]"

text \<open>A file system with no file, and one that holds an earlier \<^verbatim>\<open>comets.csv\<close>; every
  path can be opened in both.\<close>

definition empty_world :: world where
  "empty_world = \<lparr>files = Map.empty, openable = (\<lambda>p. True)\<rparr>"

definition prior_world :: world where
  "prior_world = \<lparr>files = [''comets.csv'' \<mapsto> ''old''], openable = (\<lambda>p. True)\<rparr>"

section \<open>Basic facts\<close>

lemma ebind_simps [simp]: "ebind (Inl e) f = Inl e" "ebind (Inr x) f = f x"
  by (simp_all add: ebind_def)


lemma emap_raises: "x \<in> set xs \<Longrightarrow> f x = Inl e \<Longrightarrow> \<exists>e'. emap f xs = Inl e'"
proof (induction xs)
  case Nil
  then show ?case by simp
next
  case (Cons a xs)
  then show ?case
    by (cases "f a"; cases "emap f xs") auto
qed



lemma field_map_loop_append:
  "field_map_loop (xs @ ys) m = field_map_loop ys (field_map_loop xs m)"
  by (induction xs m rule: field_map_loop.induct) simp_all

lemma build_field_map_Nil: "build_field_map [] = Map.empty"
  by (simp add: build_field_map_def)

lemma build_field_map_snoc:
  "build_field_map (fs @ [f]) =
     (case target_field f of
        Some t \<Rightarrow> (build_field_map fs)(t \<mapsto> length fs)
      | None \<Rightarrow> build_field_map fs)"
  unfolding build_field_map_def
  by (simp add: enumerate_append_eq field_map_loop_append)


lemma build_field_map_Some:
  "build_field_map fs t = Some i \<longleftrightarrow>
     i < length fs \<and> target_field (fs ! i) = Some t \<and>
     (\<forall>j. i < j \<and> j < length fs \<longrightarrow> target_field (fs ! j) \<noteq> Some t)"
proof (induction fs rule: rev_induct)
  case Nil
  then show ?case by (simp add: build_field_map_Nil)
next
  case (snoc f fs)
  show ?case
  proof (cases "target_field f = Some t")
    case True
    then have "build_field_map (fs @ [f]) t = Some (length fs)"
      by (simp add: build_field_map_snoc)
    moreover have "(length fs < length (fs @ [f]) \<and> target_field ((fs @ [f]) ! length fs) = Some t \<and>
       (\<forall>j. length fs < j \<and> j < length (fs @ [f]) \<longrightarrow> target_field ((fs @ [f]) ! j) \<noteq> Some t))"
      using True by (auto simp: less_Suc_eq)
    moreover have "i \<noteq> length fs \<Longrightarrow> \<not> (i < length (fs @ [f]) \<and> target_field ((fs @ [f]) ! i) = Some t \<and>
       (\<forall>j. i < j \<and> j < length (fs @ [f]) \<longrightarrow> target_field ((fs @ [f]) ! j) \<noteq> Some t))"
    proof
      assume ne: "i \<noteq> length fs" and h: "i < length (fs @ [f]) \<and> target_field ((fs @ [f]) ! i) = Some t \<and>
       (\<forall>j. i < j \<and> j < length (fs @ [f]) \<longrightarrow> target_field ((fs @ [f]) ! j) \<noteq> Some t)"
      then have "i < length fs" by simp
      moreover from h have "i < length fs \<and> length fs < length (fs @ [f]) \<longrightarrow>
        target_field ((fs @ [f]) ! length fs) \<noteq> Some t" by blast
      ultimately have "target_field ((fs @ [f]) ! length fs) \<noteq> Some t" by simp
      with True show False by simp
    qed
    ultimately show ?thesis by (cases "i = length fs") auto
  next
    case False
    then have eq: "build_field_map (fs @ [f]) t = build_field_map fs t"
      by (cases "target_field f") (auto simp: build_field_map_snoc)
    have "(i < length (fs @ [f]) \<and> target_field ((fs @ [f]) ! i) = Some t \<and>
       (\<forall>j. i < j \<and> j < length (fs @ [f]) \<longrightarrow> target_field ((fs @ [f]) ! j) \<noteq> Some t))
      \<longleftrightarrow> (i < length fs \<and> target_field (fs ! i) = Some t \<and>
       (\<forall>j. i < j \<and> j < length fs \<longrightarrow> target_field (fs ! j) \<noteq> Some t))" (is "?L \<longleftrightarrow> ?R")
    proof
      assume L: ?L
      then have "i \<noteq> length fs" using False by auto
      with L have il: "i < length fs" by simp
      with L have "target_field (fs ! i) = Some t" by (simp add: nth_append)
      moreover have "\<forall>j. i < j \<and> j < length fs \<longrightarrow> target_field (fs ! j) \<noteq> Some t"
      proof (intro allI impI)
        fix j assume j: "i < j \<and> j < length fs"
        with L have "target_field ((fs @ [f]) ! j) \<noteq> Some t" by simp
        with j show "target_field (fs ! j) \<noteq> Some t" by (simp add: nth_append)
      qed
      ultimately show ?R using il by simp
    next
      assume R: ?R
      have "\<forall>j. i < j \<and> j < length (fs @ [f]) \<longrightarrow> target_field ((fs @ [f]) ! j) \<noteq> Some t"
      proof (intro allI impI)
        fix j assume j: "i < j \<and> j < length (fs @ [f])"
        show "target_field ((fs @ [f]) ! j) \<noteq> Some t"
        proof (cases "j = length fs")
          case True
          then show ?thesis using False by simp
        next
          case False
          with j have "j < length fs" by simp
          with R j show ?thesis by (simp add: nth_append)
        qed
      qed
      with R show ?L by (simp add: nth_append)
    qed
    with eq snoc show ?thesis by simp
  qed
qed


section \<open>The schema of the transformer output\<close>






lemma convert_unfold:
  assumes "map_of data ''fields'' = Some (JList fs)"
      and "map_of data ''data'' = Some (JList rows)"
  shows "convert_to_kstars_format ops data =
           ebind (emap (convert_row ops (build_field_map fs)) rows) (\<lambda>kstars_data.
             Inr (Some [(''signature'', JStr kstars_signature),
                        (''fields'', JList (map JStr kstars_fields)),
                        (''data'', JList kstars_data),
                        (''count'', JInt (int (length kstars_data)))]))"
  using assms by (simp add: convert_to_kstars_format_def)





section \<open>The columns that the transformer reads\<close>








section \<open>The conversions of epoch and period\<close>

text \<open>
  The conversions of the two special fields, where \<^verbatim>\<open>float(value)\<close> returns or raises one
  of the two exceptions that the \<^verbatim>\<open>try\<close> catches: a Julian Date loses 2400000.5, any
  other epoch is kept, a period is divided by 365.25, None stays None, and a value that
  \<^verbatim>\<open>float\<close> rejects with ValueError or TypeError becomes None.
\<close>

lemma convert_value_epoch_jd:
  "py_float ops v = Inr x \<Longrightarrow> fgt_int ops x 2400000 \<Longrightarrow>
     convert_value ops ''epoch.mjd'' v = Inr (JFloat (fsub ops x (float_lit ops ''2400000.5'')))"
  by (cases v) (auto simp: convert_value_def)

lemma convert_value_epoch_mjd:
  "py_float ops v = Inr x \<Longrightarrow> \<not> fgt_int ops x 2400000 \<Longrightarrow>
     convert_value ops ''epoch.mjd'' v = Inr (JFloat x)"
  by (cases v) (auto simp: convert_value_def)

lemma convert_value_null: "convert_value ops t JNull = Inr JNull"
  by (simp add: convert_value_def)

lemma convert_value_epoch_unparsed:
  "py_float ops v = Inl e \<Longrightarrow> e = ValueError \<or> e = TypeError \<Longrightarrow>
     convert_value ops ''epoch.mjd'' v = Inr JNull"
  by (auto simp: convert_value_def)

lemma convert_value_per:
  "py_float ops v = Inr x \<Longrightarrow>
     convert_value ops ''per.y'' v = Inr (JFloat (fdiv ops x (float_lit ops ''365.25'')))"
  by (cases v) (auto simp: convert_value_def)

lemma convert_value_per_unparsed:
  "py_float ops v = Inl e \<Longrightarrow> e = ValueError \<or> e = TypeError \<Longrightarrow>
     convert_value ops ''per.y'' v = Inr JNull"
  by (auto simp: convert_value_def)

text \<open>
  An int beyond the float range makes \<^verbatim>\<open>float(value)\<close> raise OverflowError, which neither
  \<^verbatim>\<open>try\<close> catches.
\<close>

lemma convert_value_overflow:
  "t = ''per.y'' \<or> t = ''epoch.mjd'' \<Longrightarrow> \<not> int_fits_float n \<Longrightarrow>
     convert_value ops t (JInt n) = Inl OverflowError"
  by (auto simp: convert_value_def)

lemma int_fits_float_big: "\<not> int_fits_float (10 ^ 400)"
  by (simp add: int_fits_float_def)

text \<open>
  Claim C3 on the table \<^verbatim>\<open>{"fields": ["epoch"], "data": [[10**400]]}\<close>: the epoch is a
  number above 2400000, yet the transformer neither subtracts 2400000.5 nor yields null; it
  raises OverflowError, and \<^verbatim>\<open>save_as_kstars\<close> returns False without writing a file.
\<close>

theorem c3_epoch_overflow_raises:
  "convert_to_kstars_format ops epoch_overflow_payload = Inl OverflowError
   \<and> save_as_kstars ops epoch_overflow_payload ''comets.dat'' prior_world = (False, prior_world)"
proof -
  have "convert_value ops ''epoch.mjd'' (JInt (10 ^ 400)) = Inl OverflowError"
    by (rule convert_value_overflow) (simp, rule int_fits_float_big)
  then have "convert_to_kstars_format ops epoch_overflow_payload = Inl OverflowError"
    by (simp add: epoch_overflow_payload_def convert_to_kstars_format_def build_field_map_def
          convert_row_def kstars_fields_def convert_cell_def)
  then show ?thesis
    by (simp add: save_as_kstars_def epoch_overflow_payload_def)
qed

text \<open>
  Claim C4 on the table \<^verbatim>\<open>{"fields": ["per"], "data": [[10**400]]}\<close>: the period is
  present and a number, yet the transformer neither divides it by 365.25 nor yields null;
  it raises OverflowError, and \<^verbatim>\<open>save_as_kstars\<close> returns False without writing a file.
\<close>

theorem c4_per_overflow_raises:
  "convert_to_kstars_format ops per_overflow_payload = Inl OverflowError
   \<and> save_as_kstars ops per_overflow_payload ''comets.dat'' prior_world = (False, prior_world)"
proof -
  have "convert_value ops ''per.y'' (JInt (10 ^ 400)) = Inl OverflowError"
    by (rule convert_value_overflow) (simp, rule int_fits_float_big)
  then have "convert_to_kstars_format ops per_overflow_payload = Inl OverflowError"
    by (simp add: per_overflow_payload_def convert_to_kstars_format_def build_field_map_def
          convert_row_def kstars_fields_def convert_cell_def)
  then show ?thesis
    by (simp add: save_as_kstars_def per_overflow_payload_def)
qed

section \<open>The limit of the driver\<close>





section \<open>Rows too short for the field map\<close>

lemma target_field_in_kstars_fields: "target_field f = Some t \<Longrightarrow> t \<in> set kstars_fields"
  by (cases f) (auto simp: kstars_fields_def split: if_splits)

lemma build_field_map_in_kstars_fields:
  "build_field_map fs t = Some i \<Longrightarrow> t \<in> set kstars_fields"
  by (auto simp: build_field_map_Some intro: target_field_in_kstars_fields)

lemma convert_row_short:
  assumes "build_field_map fs t = Some i" and "length cells \<le> i"
  shows "\<exists>e. convert_row ops (build_field_map fs) (JList cells) = Inl e"
proof -
  have "convert_cell ops (build_field_map fs) (JList cells) t = Inl IndexError"
    using assms by (simp add: convert_cell_def)
  with build_field_map_in_kstars_fields [OF assms(1)]
  have "\<exists>e. emap (convert_cell ops (build_field_map fs) (JList cells)) kstars_fields = Inl e"
    by (rule emap_raises)
  then show ?thesis by (auto simp: convert_row_def)
qed

text \<open>
  Claim C10. For a payload with a \<^verbatim>\<open>fields\<close> list and a \<^verbatim>\<open>data\<close> list of rows, one of
  them a list with no entry at a column index that the field map holds,
  \<^verbatim>\<open>save_as_kstars\<close> returns False, whatever the output path and the file system, and
  leaves the file system as it was: no file is created and none is truncated.
\<close>

theorem c10_short_row_fails_before_open:
  assumes "map_of data ''fields'' = Some (JList fs)"
      and "map_of data ''data'' = Some (JList rows)"
      and "JList cells \<in> set rows"
      and "build_field_map fs t = Some i" and "length cells \<le> i"
  shows "save_as_kstars ops data filename w = (False, w)"
proof -
  from convert_row_short [OF assms(4,5)] obtain e where
    "convert_row ops (build_field_map fs) (JList cells) = Inl e" ..
  with assms(3) have "\<exists>e'. emap (convert_row ops (build_field_map fs)) rows = Inl e'"
    by (rule emap_raises)
  then obtain e' where "convert_to_kstars_format ops data = Inl e'"
    by (auto simp: convert_unfold [OF assms(1,2)])
  then show ?thesis by (simp add: save_as_kstars_def)
qed

text \<open>The theorem on a row with no entry for column \<^verbatim>\<open>q\<close>, in a file system that holds
  an earlier file.\<close>

theorem c10_short_row_fails_before_open_witness:
  "build_field_map [JStr ''q'' :: rat jval] ''q'' = Some 0
   \<and> save_as_kstars rat_ops short_row_payload ''comets.csv'' prior_world = (False, prior_world)
   \<and> files prior_world ''comets.csv'' = Some ''old''"
proof -
  have h1: "map_of short_row_payload ''fields'' = Some (JList [JStr ''q''])"
    by (simp add: short_row_payload_def)
  have h2: "map_of short_row_payload ''data'' = Some (JList [JList []])"
    by (simp add: short_row_payload_def)
  have h3: "JList [] \<in> set [JList [] :: rat jval]" by simp
  have h4: "build_field_map [JStr ''q'' :: rat jval] ''q'' = Some 0"
    by (simp add: build_field_map_def)
  have h5: "length ([] :: rat jval list) \<le> 0" by simp
  from c10_short_row_fails_before_open [OF h1 h2 h3 h4 h5]
  show ?thesis using h4 by (simp add: prior_world_def)
qed

section \<open>Failed writes and earlier files\<close>

text \<open>
  The JSON writer and the legacy writer do all their tests before they open the file: when
  they return False the file system is as it was. The CSV writer tests the rows after it
  has opened the file, so an empty table leaves an empty file.
\<close>

lemma save_as_json_failure_keeps_files:
  "save_as_json ops data filename w = (False, w') \<Longrightarrow> w' = w"
  by (auto simp: save_as_json_def split: if_splits sum.splits)

lemma save_as_kstars_failure_keeps_files:
  "save_as_kstars ops data filename w = (False, w') \<Longrightarrow> w' = w"
  by (auto simp: save_as_kstars_def split: if_splits sum.splits option.splits)

lemma save_as_csv_empty_table:
  "map_of data ''fields'' = Some fv \<Longrightarrow> map_of data ''data'' = Some (JList []) \<Longrightarrow>
     openable w filename \<Longrightarrow>
     save_as_csv ops data filename w = (False, w\<lparr>files := (files w)(filename \<mapsto> [])\<rparr>)"
  by (simp add: save_as_csv_def open_w_def)

text \<open>
  Claim C9 on the table \<^verbatim>\<open>{"fields": ["full_name"], "data": []}\<close> and a file system that
  holds an earlier \<^verbatim>\<open>comets.csv\<close>: \<^verbatim>\<open>save_as_csv\<close> returns False for the empty table,
  and the earlier file is left empty, because the file is opened for writing before the
  rows are tested.
\<close>

theorem c9_csv_empty_table_truncates:
  "files prior_world ''comets.csv'' = Some ''old''
   \<and> fst (save_as_csv rat_ops empty_table_payload ''comets.csv'' prior_world) = False
   \<and> files (snd (save_as_csv rat_ops empty_table_payload ''comets.csv'' prior_world)) ''comets.csv''
       = Some []"
  by (simp add: prior_world_def empty_table_payload_def save_as_csv_def open_w_def)

section \<open>Payloads without rows\<close>

lemma convert_no_data: "map_of data ''data'' = None \<Longrightarrow> convert_to_kstars_format ops data = Inr None"
  by (simp add: convert_to_kstars_format_def)

text \<open>
  Claim C7, for a payload that is not the empty dict. For every non-empty fetched payload
  with no \<^verbatim>\<open>data\<close> key, \<^verbatim>\<open>save_as_csv\<close> and \<^verbatim>\<open>save_as_kstars\<close> return False and
  leave the file system as it was, so they create no file; \<^verbatim>\<open>save_as_json\<close>, when the
  output path can be opened, returns True and leaves in the file the text that
  \<^verbatim>\<open>json.dump\<close> with \<^verbatim>\<open>indent=2\<close> writes for the payload as received.
\<close>

theorem c7_missing_data_key:
  assumes "map_of data ''data'' = None" and "data \<noteq> []"
  shows "save_as_csv ops data filename w = (False, w)
       \<and> save_as_kstars ops data filename w = (False, w)
       \<and> (openable w filename \<longrightarrow>
            save_as_json ops data filename w =
              (True, w\<lparr>files := (files w)(filename \<mapsto>
                          json_text (json_encode ops pretty_cfg 0 (JObj data)))\<rparr>))"
proof -
  have "save_as_csv ops data filename w = (False, w)"
    using assms(1) by (simp add: save_as_csv_def)
  moreover have "save_as_kstars ops data filename w = (False, w)"
    using assms(1) by (simp add: save_as_kstars_def convert_no_data)
  moreover have "openable w filename \<longrightarrow>
            save_as_json ops data filename w =
              (True, w\<lparr>files := (files w)(filename \<mapsto>
                          json_text (json_encode ops pretty_cfg 0 (JObj data)))\<rparr>)"
    using assms(2) by (simp add: save_as_json_def open_w_def write_text_def)
  ultimately show ?thesis by simp
qed

text \<open>The theorem on an error document of the service.\<close>

theorem c7_missing_data_key_witness:
  "map_of error_payload ''data'' = None
   \<and> save_as_csv rat_ops error_payload ''comets.csv'' empty_world = (False, empty_world)
   \<and> save_as_kstars rat_ops error_payload ''comets.dat'' empty_world = (False, empty_world)
   \<and> fst (save_as_json rat_ops error_payload ''comets.json'' empty_world) = True
   \<and> files (snd (save_as_json rat_ops error_payload ''comets.json'' empty_world)) ''comets.json''
       = Some (json_text (json_encode rat_ops pretty_cfg 0 (JObj error_payload)))"
proof -
  have h1: "map_of error_payload ''data'' = None" by (simp add: error_payload_def)
  have h2: "error_payload \<noteq> []" by (simp add: error_payload_def)
  have o: "openable empty_world ''comets.json''" by (simp add: empty_world_def)
  from c7_missing_data_key [OF h1 h2, of rat_ops "''comets.csv''" empty_world]
  have a: "save_as_csv rat_ops error_payload ''comets.csv'' empty_world = (False, empty_world)"
    by simp
  from c7_missing_data_key [OF h1 h2, of rat_ops "''comets.dat''" empty_world]
  have b: "save_as_kstars rat_ops error_payload ''comets.dat'' empty_world = (False, empty_world)"
    by simp
  from c7_missing_data_key [OF h1 h2, of rat_ops "''comets.json''" empty_world] o
  have c: "save_as_json rat_ops error_payload ''comets.json'' empty_world =
              (True, empty_world\<lparr>files := (files empty_world)(''comets.json'' \<mapsto>
                          json_text (json_encode rat_ops pretty_cfg 0 (JObj error_payload)))\<rparr>)"
    by simp
  show ?thesis using h1 a b by (simp add: c)
qed

text \<open>The text that the JSON writer leaves for the error document.\<close>

lemma error_payload_text:
  "json_text (json_encode rat_ops pretty_cfg 0 (JObj error_payload)) =
     [CHR ''{'', CHR 0x0A] @ ''  \"code\": \"400\",'' @ [CHR 0x0A]
       @ ''  \"message\": \"bad request\"'' @ [CHR 0x0A] @ ''}''"
  by (simp add: error_payload_def json_text_def pretty_cfg_def newline_indent_def
        closing_indent_def json_string_def json_escape_def numeral_2_eq_2)

text \<open>The empty dict lacks the \<^verbatim>\<open>data\<close> key, and \<^verbatim>\<open>save_as_json\<close> returns False on it.\<close>

theorem c7_empty_payload_counterexample:
  "map_of ([] :: rat payload) ''data'' = None
   \<and> save_as_json rat_ops [] ''comets.json'' empty_world = (False, empty_world)"
  by (simp add: save_as_json_def)

section \<open>The CSV writer\<close>








section \<open>The legacy document and its text\<close>



lemma newline_indent_compact: "newline_indent compact_cfg lvl = []"
  by (simp add: newline_indent_def compact_cfg_def)

lemma closing_indent_compact: "closing_indent compact_cfg lvl = []"
  by (simp add: closing_indent_def compact_cfg_def)

lemma separators_compact:
  "item_separator compact_cfg = '',''" "key_separator compact_cfg = '':''"
  by (simp_all add: compact_cfg_def)







text \<open>The text that the compact encoder writes for a small document of the same shape.\<close>

lemma compact_text_example:
  "json_text (json_encode rat_ops compact_cfg 0
     (JObj [(''signature'', JStr ''s''), (''fields'', JList [JStr ''q'', JStr ''e'']),
            (''data'', JList [JList [JNull, JInt 2]]), (''count'', JInt 1)]))
   = ''{\"signature\":\"s\",\"fields\":[\"q\",\"e\"],\"data\":[[null,2]],\"count\":1}''"
  by (simp add: json_text_def separators_compact newline_indent_compact closing_indent_compact
        json_string_def json_escape_def dec_int_def dec_nat.simps)

end
